theory Spec2Isabelle
  imports Complex_Main "HOL-Library.AList"
begin

section \<open>Python values and string helpers\<close>

text \<open>
  Texts are character lists, one character per code point (code points below 256).
  The helpers below are the Python built-ins the agent's code calls: \<^verbatim>\<open>str.isspace\<close>,
  \<^verbatim>\<open>str.strip\<close>, \<^verbatim>\<open>str.startswith\<close>, \<^verbatim>\<open>in\<close> on strings, \<^verbatim>\<open>str.lower\<close>,
  \<^verbatim>\<open>str.splitlines\<close> and \<^verbatim>\<open>int\<close>.
\<close>

definition is_space :: "char \<Rightarrow> bool" where
  "is_space c = (c \<in> set [CHR '' '', CHR 0x09, CHR 0x0A, CHR 0x0B, CHR 0x0C, CHR 0x0D,
                           CHR 0x1C, CHR 0x1D, CHR 0x1E, CHR 0x1F, CHR 0x85, CHR 0xA0])"

definition lstrip :: "string \<Rightarrow> string" where
  "lstrip s = dropWhile is_space s"

definition rstrip :: "string \<Rightarrow> string" where
  "rstrip s = rev (dropWhile is_space (rev s))"

definition strip :: "string \<Rightarrow> string" where
  "strip s = rstrip (lstrip s)"

fun startswith :: "string \<Rightarrow> string \<Rightarrow> bool" where
  "startswith s [] = True"
| "startswith [] (p # ps) = False"
| "startswith (c # cs) (p # ps) = (c = p \<and> startswith cs ps)"

fun contains :: "string \<Rightarrow> string \<Rightarrow> bool" where
  "contains [] p = (p = [])"
| "contains (c # cs) p = (startswith (c # cs) p \<or> contains cs p)"

definition lower_char :: "char \<Rightarrow> char" where
  "lower_char c =
     (let n = (of_char c :: nat)
      in if (65 \<le> n \<and> n \<le> 90) \<or> (192 \<le> n \<and> n \<le> 222 \<and> n \<noteq> 215)
         then char_of (n + 32) else c)"

definition lower :: "string \<Rightarrow> string" where
  "lower s = map lower_char s"

definition is_linebreak :: "char \<Rightarrow> bool" where
  "is_linebreak c = (c \<in> set [CHR 0x0A, CHR 0x0B, CHR 0x0C, CHR 0x0D,
                               CHR 0x1C, CHR 0x1D, CHR 0x1E, CHR 0x85])"

text \<open>\<^verbatim>\<open>str.splitlines()\<close>: the first argument is the current line, reversed.\<close>

fun splitlines_from :: "string \<Rightarrow> string \<Rightarrow> string list" where
  "splitlines_from cur [] = (if cur = [] then [] else [rev cur])"
| "splitlines_from cur (c # cs) =
     (if c = CHR 0x0D then
        (case cs of
           [] \<Rightarrow> [rev cur]
         | d # ds \<Rightarrow> if d = CHR 0x0A then rev cur # splitlines_from [] ds
                    else rev cur # splitlines_from [] (d # ds))
      else if is_linebreak c then rev cur # splitlines_from [] cs
      else splitlines_from (c # cur) cs)"

definition splitlines :: "string \<Rightarrow> string list" where
  "splitlines s = splitlines_from [] s"

definition is_digit :: "char \<Rightarrow> bool" where
  "is_digit c = (48 \<le> (of_char c :: nat) \<and> (of_char c :: nat) \<le> 57)"

definition digit_val :: "char \<Rightarrow> int" where
  "digit_val c = int (of_char c) - 48"

text \<open>
  The digits of a decimal literal as \<^verbatim>\<open>int()\<close> reads them: digits, with single
  underscores allowed between digits. The flag says whether the previous character
  was a digit; the accumulator is the value read so far.
\<close>

fun int_digits :: "bool \<Rightarrow> int \<Rightarrow> string \<Rightarrow> int option" where
  "int_digits prev acc [] = (if prev then Some acc else None)"
| "int_digits prev acc (c # cs) =
     (if is_digit c then int_digits True (10 * acc + digit_val c) cs
      else if c = CHR ''_'' \<and> prev then
        (case cs of [] \<Rightarrow> None
         | d # ds \<Rightarrow> if is_digit d then int_digits True (10 * acc + digit_val d) ds else None)
      else None)"

text \<open>
  \<^verbatim>\<open>int(s)\<close> on a string; \<open>None\<close> is the \<^verbatim>\<open>ValueError\<close>. The whitespace \<^verbatim>\<open>int\<close> skips
  at both ends is narrower than that of \<^verbatim>\<open>str.strip\<close>: the separators \<^verbatim>\<open>0x1C\<close> to \<^verbatim>\<open>0x1F\<close>
  are not skipped. A literal of more than 4300 digits is refused (the default limit of
  Python 3.11 on the conversion of strings to integers; underscores do not count).
\<close>

definition is_int_space :: "char \<Rightarrow> bool" where
  "is_int_space c = (c \<in> set [CHR '' '', CHR 0x09, CHR 0x0A, CHR 0x0B, CHR 0x0C, CHR 0x0D,
                               CHR 0x85, CHR 0xA0])"

definition int_strip :: "string \<Rightarrow> string" where
  "int_strip s = rev (dropWhile is_int_space (rev (dropWhile is_int_space s)))"

definition int_max_str_digits :: nat where
  "int_max_str_digits = 4300"

definition py_int_str :: "string \<Rightarrow> int option" where
  "py_int_str s =
     (if length (filter is_digit s) > int_max_str_digits then None
      else case int_strip s of
        [] \<Rightarrow> None
      | c # cs \<Rightarrow>
          if c = CHR ''-'' then map_option uminus (int_digits False 0 cs)
          else if c = CHR ''+'' then int_digits False 0 cs
          else int_digits False 0 (c # cs))"

text \<open>
  A decoded JSON value, as \<^verbatim>\<open>json.loads\<close> builds it: a \<^verbatim>\<open>dict\<close> keeps its keys in
  insertion order, so an object is an association list. A float is a finite value, an
  infinity (\<^verbatim>\<open>json.loads\<close> gives one for \<^verbatim>\<open>1e999\<close> or \<^verbatim>\<open>Infinity\<close>) or not-a-number.
\<close>

datatype py_float = Finite real | PosInf | NegInf | NaN

datatype json =
    JNull
  | JBool bool
  | JInt int
  | JFloat py_float
  | JStr string
  | JArr "json list"
  | JObj "(string \<times> json) list"

text \<open>Python's truth value of a decoded JSON value (\<^verbatim>\<open>not x\<close> is its negation).\<close>

fun truthy :: "json \<Rightarrow> bool" where
  "truthy JNull = False"
| "truthy (JBool b) = b"
| "truthy (JInt n) = (n \<noteq> 0)"
| "truthy (JFloat f) = (case f of Finite r \<Rightarrow> r \<noteq> 0 | _ \<Rightarrow> True)"
| "truthy (JStr s) = (s \<noteq> [])"
| "truthy (JArr xs) = (xs \<noteq> [])"
| "truthy (JObj kvs) = (kvs \<noteq> [])"

text \<open>
  \<^verbatim>\<open>int(x)\<close>. It returns an integer, or raises: \<^verbatim>\<open>ValueError\<close> (a string that is no
  literal, not-a-number), \<^verbatim>\<open>TypeError\<close> (\<^verbatim>\<open>None\<close>, a list, a dict) or \<^verbatim>\<open>OverflowError\<close>
  (an infinite float).
\<close>

datatype py_error = ValueError | TypeError | OverflowError

fun py_int :: "json \<Rightarrow> py_error + int" where
  "py_int JNull = Inl TypeError"
| "py_int (JBool b) = Inr (if b then 1 else 0)"
| "py_int (JInt n) = Inr n"
| "py_int (JFloat f) =
     (case f of
        Finite r \<Rightarrow> Inr (if 0 \<le> r then \<lfloor>r\<rfloor> else \<lceil>r\<rceil>)
      | NaN \<Rightarrow> Inl ValueError
      | _ \<Rightarrow> Inl OverflowError)"
| "py_int (JStr s) = (case py_int_str s of None \<Rightarrow> Inl ValueError | Some n \<Rightarrow> Inr n)"
| "py_int (JArr xs) = Inl TypeError"
| "py_int (JObj kvs) = Inl TypeError"

section \<open>The process table (config.py, process\_manager.py)\<close>

text \<open>
  \<^verbatim>\<open>running_processes\<close> is a dict from pid to a record of the process; iteration
  follows insertion order, so the table is an association list. The \<^verbatim>\<open>Popen\<close> object,
  the queue and the reader thread belong to the operating system: what they show at a
  call (exit status, queued output) is an argument of the operation that reads it.
  The keys \<^verbatim>\<open>completed\<close>, \<^verbatim>\<open>exit_code\<close> and \<^verbatim>\<open>completion_time\<close> are absent from a new
  record; the code reads them with \<^verbatim>\<open>get\<close>, so absence is \<open>False\<close> or \<open>None\<close>.
\<close>

type_synonym pid = int

record proc_data =
  command :: string
  output_lines :: "string list"
  cid :: json
  start_time :: real
  expecting_input :: bool
  completed :: bool
  exit_code :: "int option"
  completion_time :: "real option"

type_synonym proc_table = "(pid \<times> proc_data) list"

text \<open>
  \<^verbatim>\<open>find_process_by_pid_or_cid\<close>. The result is the record found together with its key
  (the code returns the record itself, an alias of the table's entry, and its callers
  read the pid from the record's process object). The function catches the
  \<^verbatim>\<open>ValueError\<close> and \<^verbatim>\<open>TypeError\<close> of \<^verbatim>\<open>int\<close> and goes on to the correlation ids; an
  \<^verbatim>\<open>OverflowError\<close> is not caught and leaves the function (\<open>Inl\<close>).
\<close>

definition waiting_processes :: "proc_table \<Rightarrow> (pid \<times> proc_data) list" where
  "waiting_processes tbl = filter (\<lambda>(p, d). expecting_input d) tbl"

definition find_by_pid :: "json \<Rightarrow> proc_table \<Rightarrow> py_error + (pid \<times> proc_data) option" where
  "find_by_pid pid_or_cid tbl =
     (case py_int pid_or_cid of
        Inl OverflowError \<Rightarrow> Inl OverflowError
      | Inl _ \<Rightarrow> Inr None
      | Inr pid_to_check \<Rightarrow>
          (case map_of tbl pid_to_check of
             None \<Rightarrow> Inr None
           | Some d \<Rightarrow> Inr (Some (pid_to_check, d))))"

definition find_by_cid :: "json \<Rightarrow> proc_table \<Rightarrow> (pid \<times> proc_data) option" where
  "find_by_cid pid_or_cid tbl =
     (case pid_or_cid of
        JStr s \<Rightarrow> find (\<lambda>(p, d). cid d = JStr s) tbl
      | _ \<Rightarrow> None)"

definition find_process_by_pid_or_cid ::
  "json \<Rightarrow> proc_table \<Rightarrow> py_error + (pid \<times> proc_data) option" where
  "find_process_by_pid_or_cid pid_or_cid tbl =
     (if \<not> truthy pid_or_cid then
        Inr (case waiting_processes tbl of [w] \<Rightarrow> Some w | _ \<Rightarrow> None)
      else
        (case find_by_pid pid_or_cid tbl of
           Inl e \<Rightarrow> Inl e
         | Inr (Some r) \<Rightarrow> Inr (Some r)
         | Inr None \<Rightarrow>
            (case find_by_cid pid_or_cid tbl of
               Some r \<Rightarrow> Inr (Some r)
             | None \<Rightarrow>
                (case tbl of
                   [(only_pid, d)] \<Rightarrow>
                     if expecting_input d then Inr (Some (only_pid, d)) else Inr None
                 | _ \<Rightarrow> Inr None))))"


subsection \<open>Draining a process's queue: update\_specific\_process\_output\<close>

text \<open>
  The reader thread puts \<^verbatim>\<open>("stdout", chunk)\<close> and \<^verbatim>\<open>("stderr", chunk)\<close> on the queue.
  A drain receives the exit status \<^verbatim>\<open>process.poll()\<close> shows and the events
  \<^verbatim>\<open>get_nowait\<close> hands out until the queue is empty. Events are typed pairs, so the
  handler of a broken queue (the \<^verbatim>\<open>[ERROR]\<close> line) has no input that reaches it.
\<close>

datatype stream = Stdout | Stderr

type_synonym output_event = "stream \<times> string"

definition input_prompts :: "string list" where
  "input_prompts = [''? '', ''y/n'', ''(y/n)'', ''select'', ''choose'', ''password'',
                    ''enter'', ''continue'']"

definition looks_like_prompt :: "string \<Rightarrow> bool" where
  "looks_like_prompt output_line =
     list_ex (\<lambda>prompt. contains (lower output_line) prompt) input_prompts"

text \<open>The inner \<^verbatim>\<open>for output_line in line.splitlines()\<close> loop, on the pair
  \<^verbatim>\<open>(new_output, data)\<close>.\<close>

fun append_lines :: "stream \<Rightarrow> string list \<Rightarrow> bool \<times> proc_data \<Rightarrow> bool \<times> proc_data" where
  "append_lines st [] acc = acc"
| "append_lines st (output_line # ls) (new_output, data) =
     (if output_line = [] then append_lines st ls (new_output, data)
      else case st of
        Stdout \<Rightarrow>
          append_lines st ls
            (True, data\<lparr>output_lines := output_lines data @ [''[STDOUT] '' @ output_line],
                        expecting_input :=
                          (if looks_like_prompt output_line then True
                           else expecting_input data)\<rparr>)
      | Stderr \<Rightarrow>
          append_lines st ls
            (True, data\<lparr>output_lines := output_lines data @ [''[STDERR] '' @ output_line]\<rparr>))"

definition consume_event :: "bool \<times> proc_data \<Rightarrow> output_event \<Rightarrow> bool \<times> proc_data" where
  "consume_event acc ev = append_lines (fst ev) (splitlines (snd ev)) acc"

definition last10 :: "string list \<Rightarrow> string list" where
  "last10 ls = drop (length ls - 10) ls"

definition drain_record :: "int option \<Rightarrow> output_event list \<Rightarrow> proc_data \<Rightarrow> bool \<times> proc_data" where
  "drain_record status events data =
     (let data1 = (case status of
                     None \<Rightarrow> data
                   | Some st \<Rightarrow> data\<lparr>completed := True, exit_code := Some st\<rparr>);
          (new_output, data2) = foldl consume_event (False, data1) events
      in (new_output, data2\<lparr>output_lines := last10 (output_lines data2)\<rparr>))"

definition update_specific_process_output ::
  "pid \<Rightarrow> int option \<Rightarrow> output_event list \<Rightarrow> proc_table \<Rightarrow> bool \<times> proc_table" where
  "update_specific_process_output pid status events tbl =
     (case map_of tbl pid of
        None \<Rightarrow> (False, tbl)
      | Some data \<Rightarrow>
          (let (new_output, data') = drain_record status events data
           in (new_output, AList.update pid data' tbl)))"

subsection \<open>The status report and reaping: update\_and\_get\_running\_processes\_info\<close>

text \<open>
  What the operating system shows for one process during a report pass: the exit status
  and queued events at the drain, and the exit status at the second \<^verbatim>\<open>poll()\<close> that
  decides how the process is listed. The report is kept as its facts per process; the
  text built from them is formatting.
\<close>

record proc_obs =
  poll_status :: "int option"
  queued :: "output_event list"
  poll_again :: "int option"

datatype proc_state = Running | WaitingForInput | Completed int

record report_entry =
  r_pid :: pid
  r_cid :: json
  r_runtime :: int
  r_state :: proc_state
  r_command :: string
  r_lines :: "string list"

definition py_trunc :: "real \<Rightarrow> int" where
  "py_trunc r = (if 0 \<le> r then \<lfloor>r\<rfloor> else \<lceil>r\<rceil>)"

definition report_one :: "real \<Rightarrow> pid \<Rightarrow> int option \<Rightarrow> proc_data \<Rightarrow> report_entry" where
  "report_one now pid status data =
     \<lparr>r_pid = pid, r_cid = cid data, r_runtime = py_trunc (now - start_time data),
      r_state = (case status of
                   None \<Rightarrow> if expecting_input data then WaitingForInput else Running
                 | Some st \<Rightarrow> Completed (case exit_code data of None \<Rightarrow> st | Some e \<Rightarrow> e)),
      r_command = command data, r_lines = output_lines data\<rparr>"

text \<open>The first loop, over the pids of the table: drain, poll again, list. The state is
  the report so far, the completed pids so far and the table.\<close>

fun report_loop ::
  "real \<Rightarrow> (pid \<Rightarrow> proc_obs) \<Rightarrow> pid list \<Rightarrow> report_entry list \<times> pid list \<times> proc_table
     \<Rightarrow> report_entry list \<times> pid list \<times> proc_table" where
  "report_loop now obs [] acc = acc"
| "report_loop now obs (pid # pids) (info, completed_pids, tbl) =
     (let tbl' = snd (update_specific_process_output pid (poll_status (obs pid))
                        (queued (obs pid)) tbl);
          status = poll_again (obs pid)
      in case map_of tbl' pid of
           None \<Rightarrow> report_loop now obs pids (info, completed_pids, tbl')
         | Some data \<Rightarrow>
             report_loop now obs pids
               (info @ [report_one now pid status data],
                (if status = None then completed_pids else completed_pids @ [pid]),
                tbl'))"

text \<open>The second loop: a completed record is removed once it has been completed for more
  than 60 seconds, and gets its completion time the first time it is seen completed.\<close>

definition reap_one :: "real \<Rightarrow> proc_table \<Rightarrow> pid \<Rightarrow> proc_table" where
  "reap_one current_time tbl pid =
     (case map_of tbl pid of
        None \<Rightarrow> tbl
      | Some data \<Rightarrow>
          if completed data \<and>
             current_time - (case completion_time data of None \<Rightarrow> current_time | Some t \<Rightarrow> t) > 60
          then AList.delete pid tbl
          else if (case completion_time data of None \<Rightarrow> True | Some t \<Rightarrow> t = 0)
          then AList.update pid (data\<lparr>completion_time := Some current_time\<rparr>) tbl
          else tbl)"

definition update_and_get_running_processes_info ::
  "real \<Rightarrow> (pid \<Rightarrow> proc_obs) \<Rightarrow> proc_table \<Rightarrow> report_entry list \<times> proc_table" where
  "update_and_get_running_processes_info now obs tbl =
     (if tbl = [] then ([], tbl)
      else
        (let (info, completed_pids, tbl') = report_loop now obs (map fst tbl) ([], [], tbl)
         in (info, foldl (reap_one now) tbl' completed_pids)))"


subsection \<open>The process handlers (command\_executor.py)\<close>

text \<open>
  A handler's argument mapping is the \<^verbatim>\<open>args\<close> dict of the action. \<^verbatim>\<open>args.get(k)\<close> gives
  \<^verbatim>\<open>None\<close> for a missing key, which is also what a JSON \<^verbatim>\<open>null\<close> decodes to.
\<close>

type_synonym py_dict = "(string \<times> json) list"

definition dict_get :: "py_dict \<Rightarrow> string \<Rightarrow> json" where
  "dict_get d k = (case map_of d k of None \<Rightarrow> JNull | Some v \<Rightarrow> v)"

text \<open>
  The background branch of \<^verbatim>\<open>handle_run_command\<close>: the new process is registered under
  the pid the operating system gave it, with an empty buffer and the flag off, and
  drained once.
\<close>

definition new_process :: "string \<Rightarrow> json \<Rightarrow> real \<Rightarrow> proc_data" where
  "new_process command_string c now =
     \<lparr>command = command_string, output_lines = [], cid = c, start_time = now,
      expecting_input = False, completed = False, exit_code = None,
      completion_time = None\<rparr>"

definition start_background ::
  "pid \<Rightarrow> string \<Rightarrow> json \<Rightarrow> real \<Rightarrow> int option \<Rightarrow> output_event list \<Rightarrow> proc_table \<Rightarrow> proc_table" where
  "start_background pid command_string c now status events tbl =
     snd (update_specific_process_output pid status events
            (AList.update pid (new_process command_string c now) tbl))"

text \<open>
  \<^verbatim>\<open>handle_send_input_to_process\<close>. The operating system's part: the exit status at the
  check, whether writing and flushing the input raised, and what the drain after the
  write finds. Any exception inside the handler gives its error result; writing a value
  that is not a string raises before the flag is touched; so does a lookup that raises.
\<close>

record send_obs =
  so_poll :: "int option"
  so_write_ok :: bool
  so_drain_poll :: "int option"
  so_drain_events :: "output_event list"

datatype send_result =
    InputRequired
  | ProcessNotFound
  | AlreadyTerminated pid
  | SendFailed
  | InputSent pid

definition send_target ::
  "py_dict \<Rightarrow> proc_table \<Rightarrow> py_error + (pid \<times> proc_data) option" where
  "send_target args tbl =
     (case find_process_by_pid_or_cid (dict_get args ''pid_or_cid'') tbl of
        Inl e \<Rightarrow> Inl e
      | Inr (Some r) \<Rightarrow> Inr (Some r)
      | Inr None \<Rightarrow> Inr (case waiting_processes tbl of [w] \<Rightarrow> Some w | _ \<Rightarrow> None))"

definition handle_send_input_to_process ::
  "py_dict \<Rightarrow> send_obs \<Rightarrow> proc_table \<Rightarrow> send_result \<times> proc_table" where
  "handle_send_input_to_process args ob tbl =
     (let input_data = dict_get args ''input_data''
      in if input_data = JNull then (InputRequired, tbl)
         else case send_target args tbl of
           Inl e \<Rightarrow> (SendFailed, tbl)
         | Inr None \<Rightarrow> (ProcessNotFound, tbl)
         | Inr (Some (pid, process_data)) \<Rightarrow>
             if so_poll ob \<noteq> None then (AlreadyTerminated pid, tbl)
             else (case input_data of
                JStr text \<Rightarrow>
                  if \<not> so_write_ok ob then (SendFailed, tbl)
                  else
                    (let tbl1 = AList.update pid (process_data\<lparr>expecting_input := False\<rparr>) tbl;
                         tbl2 = snd (update_specific_process_output pid (so_drain_poll ob)
                                       (so_drain_events ob) tbl1)
                     in (InputSent pid, tbl2))
              | _ \<Rightarrow> (SendFailed, tbl)))"

text \<open>
  \<^verbatim>\<open>handle_kill_process\<close>. The operating system's part is how the termination went: the
  process exited after the graceful signal, exited after the forceful one, was still
  there after both waits, or a call raised. A lookup that raises ends in the handler's
  error result as well.
\<close>

datatype kill_obs = ExitedOnTerminate | ExitedOnKill | StillAlive | KillRaised

datatype kill_result = KillNotFound | KillWarning pid | KillError | Killed pid

definition handle_kill_process ::
  "py_dict \<Rightarrow> kill_obs \<Rightarrow> proc_table \<Rightarrow> kill_result \<times> proc_table" where
  "handle_kill_process args ob tbl =
     (case find_process_by_pid_or_cid (dict_get args ''pid_or_cid'') tbl of
        Inl e \<Rightarrow> (KillError, tbl)
      | Inr None \<Rightarrow> (KillNotFound, tbl)
      | Inr (Some (pid, process_data)) \<Rightarrow>
          (case ob of
             KillRaised \<Rightarrow> (KillError, tbl)
           | StillAlive \<Rightarrow> (KillWarning pid, tbl)
           | _ \<Rightarrow> (Killed pid, AList.delete pid tbl)))"

subsection \<open>The operations on the table\<close>

text \<open>
  Every place of the program that writes the table: the background start, the drain, the
  report pass, and the two handlers. (\<^verbatim>\<open>cleanup_running_processes\<close> and the prompt
  assembly of the main loop only read it.)
\<close>

datatype sup_op =
    OpStart pid string json real "int option" "output_event list"
  | OpDrain pid "int option" "output_event list"
  | OpRefresh real "pid \<Rightarrow> proc_obs"
  | OpSendInput py_dict send_obs
  | OpKill py_dict kill_obs

fun sup_step :: "sup_op \<Rightarrow> proc_table \<Rightarrow> proc_table" where
  "sup_step (OpStart pid cmd c now status events) tbl =
     start_background pid cmd c now status events tbl"
| "sup_step (OpDrain pid status events) tbl =
     snd (update_specific_process_output pid status events tbl)"
| "sup_step (OpRefresh now obs) tbl = snd (update_and_get_running_processes_info now obs tbl)"
| "sup_step (OpSendInput args ob) tbl = snd (handle_send_input_to_process args ob tbl)"
| "sup_step (OpKill args ob) tbl = snd (handle_kill_process args ob tbl)"

text \<open>The events an operation's drain consumes for a given pid.\<close>

fun drained_events :: "sup_op \<Rightarrow> proc_table \<Rightarrow> pid \<Rightarrow> output_event list" where
  "drained_events (OpStart p cmd c now status events) tbl pid = (if p = pid then events else [])"
| "drained_events (OpDrain p status events) tbl pid = (if p = pid then events else [])"
| "drained_events (OpRefresh now obs) tbl pid = queued (obs pid)"
| "drained_events (OpSendInput args ob) tbl pid =
     (if fst (handle_send_input_to_process args ob tbl) = InputSent pid
      then so_drain_events ob else [])"
| "drained_events (OpKill args ob) tbl pid = []"

text \<open>Whether an operation registers a new record under the given pid.\<close>

fun starts :: "sup_op \<Rightarrow> pid \<Rightarrow> bool" where
  "starts (OpStart p cmd c now status events) pid = (p = pid)"
| "starts _ pid = False"

definition prompt_seen :: "output_event list \<Rightarrow> bool" where
  "prompt_seen events =
     list_ex (\<lambda>ev. fst ev = Stdout \<and>
                    list_ex (\<lambda>l. l \<noteq> [] \<and> looks_like_prompt l) (splitlines (snd ev))) events"

definition tagged_lines :: "output_event list \<Rightarrow> string list" where
  "tagged_lines events =
     concat (map (\<lambda>ev. map (\<lambda>l. (case fst ev of Stdout \<Rightarrow> ''[STDOUT] '' | Stderr \<Rightarrow> ''[STDERR] '') @ l)
                          (filter (\<lambda>l. l \<noteq> []) (splitlines (snd ev)))) events)"

subsection \<open>A small table used in the examples\<close>

definition demo_proc :: "json \<Rightarrow> bool \<Rightarrow> proc_data" where
  "demo_proc c w = \<lparr>command = ''sh'', output_lines = [], cid = c, start_time = 0,
     expecting_input = w, completed = False, exit_code = None, completion_time = None\<rparr>"

definition demo_table :: proc_table where
  "demo_table = [(11, demo_proc (JStr ''build'') True), (12, demo_proc (JStr ''serve'') False)]"

subsection \<open>Examples for the process table\<close>

definition demo_out1 :: "output_event list" where
  "demo_out1 = [(Stdout, ''l1\<newline>l2\<newline>l3\<newline>l4\<newline>''), (Stdout, ''l5\<newline>l6\<newline>l7\<newline>l8\<newline>'')]"

definition demo_out2 :: "output_event list" where
  "demo_out2 = [(Stdout, ''l9\<newline>l10\<newline>l11\<newline>l12\<newline>l13\<newline>l14\<newline>l15\<newline>'')]"

definition demo_single :: proc_table where
  "demo_single = [(7, new_process ''make'' (JStr '''') 0)]"

definition demo_prompt :: "output_event list" where
  "demo_prompt = [(Stdout, ''Continue? (y/n)\<newline>'')]"

definition demo_send_args :: py_dict where
  "demo_send_args = [(''pid_or_cid'', JStr ''7''), (''input_data'', JStr ''y'')]"

definition demo_send_obs :: send_obs where
  "demo_send_obs = \<lparr>so_poll = None, so_write_ok = True, so_drain_poll = None, so_drain_events = []\<rparr>"


definition demo_rec0 :: proc_data where
  "demo_rec0 = new_process ''make'' (JStr []) 0"

definition demo_rec1 :: proc_data where
  "demo_rec1 = demo_rec0\<lparr>output_lines := [''[STDOUT] Continue? (y/n)''], expecting_input := True\<rparr>"


section \<open>Verified properties\<close>

subsection \<open>Draining, reporting and reaping\<close>

lemma append_lines_snd:
  "snd (append_lines st ls (b, d)) =
     d\<lparr>output_lines := output_lines d @ map (\<lambda>l. (case st of Stdout \<Rightarrow> ''[STDOUT] '' | Stderr \<Rightarrow> ''[STDERR] '') @ l) (filter (\<lambda>l. l \<noteq> []) ls),
       expecting_input := (expecting_input d \<or> (st = Stdout \<and> list_ex (\<lambda>l. l \<noteq> [] \<and> looks_like_prompt l) ls))\<rparr>"
proof (induction ls arbitrary: b d)
  case Nil
  show ?case by simp
next
  case (Cons l ls)
  show ?case
    using Cons.IH by (cases st) auto
qed

lemma foldl_consume_snd:
  "snd (foldl consume_event (b, d) events) =
     d\<lparr>output_lines := output_lines d @ tagged_lines events,
       expecting_input := (expecting_input d \<or> prompt_seen events)\<rparr>"
proof (induction events arbitrary: b d)
  case Nil
  show ?case by (simp add: tagged_lines_def prompt_seen_def)
next
  case (Cons ev events)
  obtain b' d' where acc: "consume_event (b, d) ev = (b', d')"
    by (cases "consume_event (b, d) ev")
  have d': "d' = snd (append_lines (fst ev) (splitlines (snd ev)) (b, d))"
    using acc by (simp add: consume_event_def)
  show ?case
    using Cons.IH [of b' d']
    by (simp add: acc) (auto simp: d' append_lines_snd tagged_lines_def prompt_seen_def)
qed

lemma drain_record_snd:
  "snd (drain_record status events d) =
     d\<lparr>completed := (completed d \<or> status \<noteq> None),
       exit_code := (case status of None \<Rightarrow> exit_code d | Some st \<Rightarrow> Some st),
       output_lines := last10 (output_lines d @ tagged_lines events),
       expecting_input := (expecting_input d \<or> prompt_seen events)\<rparr>"
proof -
  let ?d1 = "case status of None \<Rightarrow> d | Some st \<Rightarrow> d\<lparr>completed := True, exit_code := Some st\<rparr>"
  obtain b' d' where f: "foldl consume_event (False, ?d1) events = (b', d')"
    by (cases "foldl consume_event (False, ?d1) events")
  have "d' = snd (foldl consume_event (False, ?d1) events)" using f by simp
  then have d': "d' = ?d1\<lparr>output_lines := output_lines ?d1 @ tagged_lines events,
       expecting_input := (expecting_input ?d1 \<or> prompt_seen events)\<rparr>"
    by (simp only: foldl_consume_snd)
  show ?thesis
    unfolding drain_record_def Let_def f
    by (cases status) (simp_all add: d')
qed

lemma map_of_update_output:
  "map_of (snd (update_specific_process_output pid status events tbl)) q =
     (if q = pid then map_option (\<lambda>d. snd (drain_record status events d)) (map_of tbl pid)
      else map_of tbl q)"
  by (cases "map_of tbl pid")
     (auto simp: update_specific_process_output_def update_conv split: prod.splits)

lemma keys_update_output:
  "map fst (snd (update_specific_process_output pid status events tbl)) = map fst tbl"
proof (cases "map_of tbl pid")
  case None
  then show ?thesis by (simp add: update_specific_process_output_def)
next
  case (Some d)
  then have "pid \<in> fst ` set tbl" by (metis domI dom_map_of_conv_image_fst)
  then show ?thesis
    using Some by (simp add: update_specific_process_output_def update_keys split: prod.splits)
qed



lemma report_loop_tbl:
  "distinct pids \<Longrightarrow>
   map_of (snd (snd (report_loop now obs pids (info, cps, tbl)))) q =
     (if q \<in> set pids
      then map_option (\<lambda>d. snd (drain_record (poll_status (obs q)) (queued (obs q)) d)) (map_of tbl q)
      else map_of tbl q)"
proof (induction pids arbitrary: info cps tbl)
  case Nil
  show ?case by simp
next
  case (Cons p pids)
  let ?t = "snd (update_specific_process_output p (poll_status (obs p)) (queued (obs p)) tbl)"
  from Cons.prems have d: "distinct pids" and np: "p \<notin> set pids" by simp_all
  show ?case
  proof (cases "map_of ?t p")
    case None
    then show ?thesis
      using Cons.IH [OF d, of info cps ?t] np
      by (auto simp: Let_def map_of_update_output)
  next
    case (Some a)
    then show ?thesis
      using Cons.IH [OF d, of _ _ ?t] np
      by (auto simp: Let_def map_of_update_output)
  qed
qed


lemma map_of_reap_one:
  "map_of (reap_one now tbl p) q =
     (if q = p then
        (case map_of tbl p of
           None \<Rightarrow> None
         | Some d \<Rightarrow>
             if completed d \<and> now - (case completion_time d of None \<Rightarrow> now | Some t \<Rightarrow> t) > 60
             then None
             else if (case completion_time d of None \<Rightarrow> True | Some t \<Rightarrow> t = 0)
             then Some (d\<lparr>completion_time := Some now\<rparr>)
             else Some d)
      else map_of tbl q)"
  by (auto simp: reap_one_def update_conv delete_conv split: option.splits)

lemma reap_fold_None:
  "map_of tbl q = None \<Longrightarrow> map_of (foldl (reap_one now) tbl cps) q = None"
proof (induction cps arbitrary: tbl)
  case Nil
  then show ?case by simp
next
  case (Cons p cps)
  have "map_of (reap_one now tbl p) q = None"
    using Cons.prems by (auto simp: map_of_reap_one)
  then show ?case using Cons.IH by simp
qed

lemma reap_fold_Some:
  "map_of tbl q = Some d \<Longrightarrow>
     (map_of (foldl (reap_one now) tbl cps) q = None \<and> q \<in> set cps \<and> completed d \<and>
        (\<exists>ct. completion_time d = Some ct \<and> now - ct > 60))
   \<or> map_of (foldl (reap_one now) tbl cps) q = Some d
   \<or> map_of (foldl (reap_one now) tbl cps) q = Some (d\<lparr>completion_time := Some now\<rparr>)"
proof (induction cps arbitrary: tbl d)
  case Nil
  then show ?case by simp
next
  case (Cons p cps)
  show ?case
  proof (cases "map_of (reap_one now tbl p) q")
    case None
    then have "map_of (foldl (reap_one now) (reap_one now tbl p) cps) q = None"
      by (rule reap_fold_None)
    moreover have "q = p \<and> completed d \<and> (\<exists>ct. completion_time d = Some ct \<and> now - ct > 60)"
      using None Cons.prems by (auto simp: map_of_reap_one split: if_splits option.splits)
    ultimately show ?thesis by simp
  next
    case (Some d2)
    then have d2: "d2 = d \<or> d2 = d\<lparr>completion_time := Some now\<rparr>"
      using Cons.prems by (auto simp: map_of_reap_one split: if_splits option.splits)
    from Cons.IH [OF Some] d2 show ?thesis
      by auto
  qed
qed

subsection \<open>Process lookup\<close>

text \<open>
  Claim C1, as the code has it. A truthy identifier resolves by pid first (the identifier
  read with \<^verbatim>\<open>int()\<close>), else by the first record whose correlation id equals the
  identifier string; when neither matches, the only record of the table is the default,
  and only while it is expecting input. When no identifier is given (a falsy value), the
  default is the process expecting input, if exactly one process of the table is
  expecting input. Every other case gives no record, but for an identifier that is an
  infinite float: there \<^verbatim>\<open>int()\<close> raises \<^verbatim>\<open>OverflowError\<close>, the lookup does not catch it
  and does not return, and the handler that called it (kill, or send input once it has
  its input) gives its error result and leaves the table as it is.
\<close>

theorem find_process_resolution_order:
  "(truthy i \<and> py_int i = Inr p \<and> map_of tbl p = Some d
      \<longrightarrow> find_process_by_pid_or_cid i tbl = Inr (Some (p, d)))
   \<and> (find_by_pid (JStr s) tbl = Inr None \<and> s \<noteq> []
        \<and> find (\<lambda>(p, d). cid d = JStr s) tbl = Some r
      \<longrightarrow> find_process_by_pid_or_cid (JStr s) tbl = Inr (Some r))
   \<and> (truthy i \<and> find_by_pid i tbl = Inr None \<and> find_by_cid i tbl = None
      \<longrightarrow> find_process_by_pid_or_cid i tbl =
           Inr (case tbl of
                  [(only_pid, d)] \<Rightarrow> if expecting_input d then Some (only_pid, d) else None
                | _ \<Rightarrow> None))
   \<and> (\<not> truthy i
      \<longrightarrow> find_process_by_pid_or_cid i tbl =
           Inr (case filter (\<lambda>(p, d). expecting_input d) tbl of [w] \<Rightarrow> Some w | _ \<Rightarrow> None))
   \<and> ((find_process_by_pid_or_cid i tbl = Inl e)
        = (e = OverflowError \<and> (i = JFloat PosInf \<or> i = JFloat NegInf)))
   \<and> (find_process_by_pid_or_cid (dict_get args ''pid_or_cid'') tbl = Inl e
      \<longrightarrow> handle_kill_process args ob tbl = (KillError, tbl))
   \<and> (find_process_by_pid_or_cid (dict_get args ''pid_or_cid'') tbl = Inl e
        \<and> dict_get args ''input_data'' \<noteq> JNull
      \<longrightarrow> handle_send_input_to_process args so tbl = (SendFailed, tbl))"
proof -
  have ov: "(py_int i = Inl OverflowError) = (i = JFloat PosInf \<or> i = JFloat NegInf)"
    by (cases i) (auto split: py_float.splits option.splits)
  have tr: "py_int i = Inl OverflowError \<Longrightarrow> truthy i"
    by (cases i) (auto split: py_float.splits option.splits)
  have e: "(find_process_by_pid_or_cid i tbl = Inl e)
        = (e = OverflowError \<and> (i = JFloat PosInf \<or> i = JFloat NegInf))"
    unfolding ov [symmetric] using tr
    by (auto simp: find_process_by_pid_or_cid_def find_by_pid_def
             split: option.splits sum.splits py_error.splits list.splits if_splits)
  have sent: "find_process_by_pid_or_cid (dict_get args ''pid_or_cid'') tbl = Inl e
        \<and> dict_get args ''input_data'' \<noteq> JNull
      \<longrightarrow> handle_send_input_to_process args so tbl = (SendFailed, tbl)"
    by (simp add: handle_send_input_to_process_def send_target_def)
  show ?thesis
    unfolding e
    using sent [unfolded e]
    by (auto simp: find_process_by_pid_or_cid_def find_by_pid_def find_by_cid_def
                   waiting_processes_def handle_kill_process_def
             split: option.splits sum.splits py_error.splits list.splits)
qed

lemma py_int_str_12: "py_int_str ''12'' = Some 12"
  by (simp add: py_int_str_def int_strip_def is_int_space_def is_digit_def digit_val_def
        int_max_str_digits_def)

lemma py_int_str_serve: "py_int_str ''serve'' = None"
  by (simp add: py_int_str_def int_strip_def is_int_space_def is_digit_def digit_val_def
        int_max_str_digits_def)

lemma py_int_str_zzz: "py_int_str ''zzz'' = None"
  by (simp add: py_int_str_def int_strip_def is_int_space_def is_digit_def digit_val_def
        int_max_str_digits_def)

lemma py_int_str_separator: "py_int_str [CHR 0x1C, CHR ''1'', CHR ''2''] = None"
  by (simp add: py_int_str_def int_strip_def is_int_space_def is_digit_def digit_val_def
        int_max_str_digits_def)

text \<open>
  The resolution order at a table of two processes, one expecting input: by pid, by
  correlation id, the default of a sole process, no record, no identifier, a pid text
  behind a separator character (not an integer for \<^verbatim>\<open>int()\<close>, so no pid match), and an
  infinite float, at the lookup and at the two handlers.
\<close>

theorem find_process_resolution_order_witness:
  "find_process_by_pid_or_cid (JStr ''12'') demo_table
     = Inr (Some (12, demo_proc (JStr ''serve'') False))
   \<and> find_process_by_pid_or_cid (JStr ''serve'') demo_table
     = Inr (Some (12, demo_proc (JStr ''serve'') False))
   \<and> find_process_by_pid_or_cid (JStr ''zzz'') [(11, demo_proc (JStr ''build'') True)]
     = Inr (Some (11, demo_proc (JStr ''build'') True))
   \<and> find_process_by_pid_or_cid (JStr ''zzz'') demo_table = Inr None
   \<and> find_process_by_pid_or_cid JNull demo_table
     = Inr (Some (11, demo_proc (JStr ''build'') True))
   \<and> find_process_by_pid_or_cid (JStr [CHR 0x1C, CHR ''1'', CHR ''2'']) demo_table = Inr None
   \<and> find_process_by_pid_or_cid (JFloat PosInf) demo_table = Inl OverflowError
   \<and> handle_kill_process [(''pid_or_cid'', JFloat PosInf)] ExitedOnTerminate demo_table
     = (KillError, demo_table)
   \<and> handle_send_input_to_process [(''pid_or_cid'', JFloat PosInf), (''input_data'', JStr ''y'')]
       demo_send_obs demo_table
     = (SendFailed, demo_table)"
proof -
  have a: "find_process_by_pid_or_cid (JStr ''12'') demo_table
     = Inr (Some (12, demo_proc (JStr ''serve'') False))"
    using find_process_resolution_order [of "JStr ''12''" 12 demo_table "demo_proc (JStr ''serve'') False"]
    by (simp add: py_int_str_12 demo_table_def)
  have b: "find_process_by_pid_or_cid (JStr ''serve'') demo_table
     = Inr (Some (12, demo_proc (JStr ''serve'') False))"
    using find_process_resolution_order [of _ _ demo_table _ "''serve''" "(12, demo_proc (JStr ''serve'') False)"]
    by (simp add: py_int_str_serve find_by_pid_def demo_table_def demo_proc_def)
  have c: "find_process_by_pid_or_cid (JStr ''zzz'') [(11, demo_proc (JStr ''build'') True)]
     = Inr (Some (11, demo_proc (JStr ''build'') True))"
    using find_process_resolution_order [of "JStr ''zzz''" _ "[(11, demo_proc (JStr ''build'') True)]"]
    by (simp add: py_int_str_zzz find_by_pid_def find_by_cid_def demo_proc_def)
  have d: "find_process_by_pid_or_cid (JStr ''zzz'') demo_table = Inr None"
    using find_process_resolution_order [of "JStr ''zzz''" _ demo_table]
    by (simp add: py_int_str_zzz find_by_pid_def find_by_cid_def demo_table_def demo_proc_def)
  have e: "find_process_by_pid_or_cid JNull demo_table
     = Inr (Some (11, demo_proc (JStr ''build'') True))"
    using find_process_resolution_order [of JNull _ demo_table]
    by (simp add: demo_table_def demo_proc_def)
  have f: "find_process_by_pid_or_cid (JStr [CHR 0x1C, CHR ''1'', CHR ''2'']) demo_table = Inr None"
    using find_process_resolution_order [of "JStr [CHR 0x1C, CHR ''1'', CHR ''2'']" _ demo_table]
    by (simp add: py_int_str_separator find_by_pid_def find_by_cid_def demo_table_def demo_proc_def)
  have g: "find_process_by_pid_or_cid (JFloat PosInf) demo_table = Inl OverflowError"
    using find_process_resolution_order [of "JFloat PosInf" _ demo_table _ _ _ OverflowError]
    by simp
  have h: "handle_kill_process [(''pid_or_cid'', JFloat PosInf)] ExitedOnTerminate demo_table
     = (KillError, demo_table)"
    using find_process_resolution_order
            [of _ _ demo_table _ _ _ OverflowError "[(''pid_or_cid'', JFloat PosInf)]" ExitedOnTerminate] g
    by (simp add: dict_get_def)
  have k: "handle_send_input_to_process [(''pid_or_cid'', JFloat PosInf), (''input_data'', JStr ''y'')]
       demo_send_obs demo_table
     = (SendFailed, demo_table)"
    using find_process_resolution_order
            [of _ _ demo_table _ _ _ OverflowError
                "[(''pid_or_cid'', JFloat PosInf), (''input_data'', JStr ''y'')]" _ demo_send_obs] g
    by (simp add: dict_get_def)
  from a b c d e f g h k show ?thesis by simp
qed

text \<open>
  The lookup as the specification states it fails on the same table: with an identifier that
  matches nothing and exactly one process expecting input, no record is returned (two
  processes are tracked); and with no identifier the process expecting input is returned
  although two processes exist.
\<close>

theorem find_process_default_counterexample:
  "length (waiting_processes demo_table) = 1
   \<and> find_by_pid (JStr ''zzz'') demo_table = Inr None
   \<and> find_by_cid (JStr ''zzz'') demo_table = None
   \<and> find_process_by_pid_or_cid (JStr ''zzz'') demo_table = Inr None
   \<and> length demo_table = 2
   \<and> find_process_by_pid_or_cid JNull demo_table
     = Inr (Some (11, demo_proc (JStr ''build'') True))"
  by (simp add: find_process_by_pid_or_cid_def find_by_pid_def find_by_cid_def
        waiting_processes_def py_int_str_zzz demo_table_def demo_proc_def)

subsection \<open>The output buffer, the input flag and retention\<close>

lemma last10_length: "length (last10 xs) = min 10 (length xs)"
  by (simp add: last10_def min_def)

lemma last10_suffix: "xs = take (length xs - 10) xs @ last10 xs"
  by (simp add: last10_def)

text \<open>
  Claim C6. After a drain of a tracked process, its buffer is the last ten lines of what
  had accumulated (the lines held before followed by the tagged non-empty lines of the
  drained events): the accumulated lines are some evicted lines followed by the buffer,
  and the buffer holds ten lines, or all of them when fewer than ten have accumulated.
\<close>

theorem drain_keeps_last_ten:
  assumes "map_of tbl pid = Some d"
  shows "\<exists>d' evicted.
           map_of (snd (update_specific_process_output pid status events tbl)) pid = Some d'
         \<and> output_lines d @ tagged_lines events = evicted @ output_lines d'
         \<and> length (output_lines d') = min 10 (length (output_lines d @ tagged_lines events))
         \<and> length (output_lines d') \<le> 10"
proof -
  let ?all = "output_lines d @ tagged_lines events"
  let ?d' = "snd (drain_record status events d)"
  have m: "map_of (snd (update_specific_process_output pid status events tbl)) pid = Some ?d'"
    using assms by (simp add: map_of_update_output)
  have o: "output_lines ?d' = last10 ?all"
    by (simp add: drain_record_snd)
  have "?all = take (length ?all - 10) ?all @ output_lines ?d'"
    unfolding o by (rule last10_suffix)
  moreover have "length (output_lines ?d') = min 10 (length ?all)"
    unfolding o by (rule last10_length)
  ultimately show ?thesis using m by (metis min.cobounded1)
qed

text \<open>
  The buffer bound at fifteen stdout lines arriving across two drains (eight, then seven): eight lines
  are held after the first drain, and exactly the last ten after the second.
\<close>

theorem drain_keeps_last_ten_witness:
  "map_of demo_single 7 = Some (new_process ''make'' (JStr '''') 0)
   \<and> (\<exists>d'. map_of (snd (update_specific_process_output 7 None demo_out1 demo_single)) 7 = Some d'
          \<and> length (output_lines d') = 8)
   \<and> map (output_lines \<circ> snd)
        (snd (update_specific_process_output 7 None demo_out2
               (snd (update_specific_process_output 7 None demo_out1 demo_single))))
      = [[''[STDOUT] l6'', ''[STDOUT] l7'', ''[STDOUT] l8'', ''[STDOUT] l9'', ''[STDOUT] l10'',
          ''[STDOUT] l11'', ''[STDOUT] l12'', ''[STDOUT] l13'', ''[STDOUT] l14'', ''[STDOUT] l15'']]"
proof -
  have h: "map_of demo_single 7 = Some (new_process ''make'' (JStr '''') 0)"
    by (simp add: demo_single_def)
  have t: "length (tagged_lines demo_out1) = 8"
    by code_simp
  have a: "\<exists>d'. map_of (snd (update_specific_process_output 7 None demo_out1 demo_single)) 7 = Some d'
          \<and> length (output_lines d') = 8"
    using drain_keeps_last_ten [OF h, of None demo_out1] by (auto simp: new_process_def t)
  have b: "map (output_lines \<circ> snd)
        (snd (update_specific_process_output 7 None demo_out2
               (snd (update_specific_process_output 7 None demo_out1 demo_single))))
      = [[''[STDOUT] l6'', ''[STDOUT] l7'', ''[STDOUT] l8'', ''[STDOUT] l9'', ''[STDOUT] l10'',
          ''[STDOUT] l11'', ''[STDOUT] l12'', ''[STDOUT] l13'', ''[STDOUT] l14'', ''[STDOUT] l15'']]"
    by code_simp
  from h a b show ?thesis by simp
qed

lemma refresh_record:
  assumes dist: "distinct (map fst tbl)" and m: "map_of tbl pid = Some d"
  shows "(map_of (snd (update_and_get_running_processes_info now obs tbl)) pid = None
            \<and> (completed d \<or> poll_status (obs pid) \<noteq> None)
            \<and> (\<exists>ct. completion_time d = Some ct \<and> now - ct > 60))
       \<or> (\<exists>d'. map_of (snd (update_and_get_running_processes_info now obs tbl)) pid = Some d'
            \<and> expecting_input d' = (expecting_input d \<or> prompt_seen (queued (obs pid)))
            \<and> output_lines d' = last10 (output_lines d @ tagged_lines (queued (obs pid))))"
proof -
  from m have ne: "tbl \<noteq> []" by auto
  from m have mem: "pid \<in> set (map fst tbl)"
    by (metis domI dom_map_of_conv_image_fst set_map)
  obtain info cps tbl' where r: "report_loop now obs (map fst tbl) ([], [], tbl) = (info, cps, tbl')"
    by (cases "report_loop now obs (map fst tbl) ([], [], tbl)") auto
  let ?dr = "snd (drain_record (poll_status (obs pid)) (queued (obs pid)) d)"
  have "map_of (snd (snd (report_loop now obs (map fst tbl) ([], [], tbl)))) pid = Some ?dr"
    using report_loop_tbl [OF dist, of now obs "[]" "[]" tbl pid] mem m by simp
  then have t': "map_of tbl' pid = Some ?dr" using r by simp
  have res: "snd (update_and_get_running_processes_info now obs tbl) = foldl (reap_one now) tbl' cps"
    using ne r by (simp add: update_and_get_running_processes_info_def)
  from reap_fold_Some [OF t', of now cps] show ?thesis
    unfolding res by (auto simp: drain_record_snd)
qed


lemma start_record:
  "map_of (start_background p cmd c now status events tbl) q =
     (if q = p then Some (snd (drain_record status events (new_process cmd c now)))
      else map_of tbl q)"
  by (simp add: start_background_def map_of_update_output update_conv)

lemma send_record:
  assumes "map_of tbl pid = Some d"
  shows "(fst (handle_send_input_to_process args ob tbl) = InputSent pid
            \<and> so_poll ob = None \<and> so_write_ok ob
            \<and> (\<exists>d'. map_of (snd (handle_send_input_to_process args ob tbl)) pid = Some d'
                  \<and> expecting_input d' = prompt_seen (so_drain_events ob)))
       \<or> (fst (handle_send_input_to_process args ob tbl) \<noteq> InputSent pid
            \<and> map_of (snd (handle_send_input_to_process args ob tbl)) pid = Some d)"
  using assms
  by (auto simp: handle_send_input_to_process_def Let_def map_of_update_output update_conv
                 drain_record_snd
           split: option.splits sum.splits json.splits prod.splits)

lemma kill_record:
  "map_of (snd (handle_kill_process args ob tbl)) q =
     (if fst (handle_kill_process args ob tbl) = Killed q then None else map_of tbl q)"
  by (auto simp: handle_kill_process_def delete_conv
           split: option.splits sum.splits kill_obs.splits prod.splits)









text \<open>
  Claim C7. Over every operation that writes the table, for a process tracked before and
  after: if the flag is on afterwards and was off before (or the record was just
  registered, which starts with the flag off), then the operation drained a non-empty
  stdout line containing one of the fixed keywords; and if the flag was on before and is
  off afterwards on a record that was not just registered, then the operation is an
  input delivery to this process that found it running and whose write and flush did not
  raise.
\<close>

theorem expecting_input_set_and_cleared:
  assumes "distinct (map fst tbl)"
      and "map_of tbl pid = Some d"
      and "map_of (sup_step op tbl) pid = Some d'"
  shows "(expecting_input d' \<and> (\<not> expecting_input d \<or> starts op pid)
            \<longrightarrow> prompt_seen (drained_events op tbl pid))
       \<and> (expecting_input d \<and> \<not> expecting_input d' \<and> \<not> starts op pid
            \<longrightarrow> (\<exists>args ob. op = OpSendInput args ob
                    \<and> fst (handle_send_input_to_process args ob tbl) = InputSent pid
                    \<and> so_poll ob = None \<and> so_write_ok ob))"
proof (cases op)
  case (OpStart p cmd c now status events)
  then show ?thesis
    using assms by (auto simp: start_record drain_record_snd new_process_def split: if_splits)
next
  case (OpDrain p status events)
  then show ?thesis
    using assms by (auto simp: map_of_update_output drain_record_snd split: if_splits)
next
  case (OpRefresh now obs)
  then show ?thesis
    using assms refresh_record [OF assms(1,2), of now obs] by auto
next
  case (OpSendInput args ob)
  then show ?thesis
    using assms send_record [OF assms(2), of args ob] by auto
next
  case (OpKill args ob)
  then show ?thesis
    using assms by (auto simp: kill_record split: if_splits)
qed


text \<open>
  The flag at one process: draining the stdout line \<^verbatim>\<open>Continue? (y/n)\<close> turns the flag on, and
  sending input to the process turns it off.
\<close>

theorem expecting_input_set_and_cleared_witness:
  "distinct (map fst demo_single)
   \<and> map_of demo_single 7 = Some demo_rec0
   \<and> map_of (sup_step (OpDrain 7 None demo_prompt) demo_single) 7 = Some demo_rec1
   \<and> \<not> expecting_input demo_rec0 \<and> expecting_input demo_rec1
   \<and> prompt_seen (drained_events (OpDrain 7 None demo_prompt) demo_single 7)
   \<and> map_of (sup_step (OpSendInput demo_send_args demo_send_obs) [(7, demo_rec1)]) 7
        = Some (demo_rec1\<lparr>expecting_input := False\<rparr>)
   \<and> fst (handle_send_input_to_process demo_send_args demo_send_obs [(7, demo_rec1)]) = InputSent 7"
proof -
  have h1: "distinct (map fst demo_single)" by (simp add: demo_single_def)
  have h2: "map_of demo_single 7 = Some demo_rec0" by (simp add: demo_single_def demo_rec0_def)
  have h3: "map_of (sup_step (OpDrain 7 None demo_prompt) demo_single) 7 = Some demo_rec1"
    by code_simp
  have f: "\<not> expecting_input demo_rec0 \<and> expecting_input demo_rec1"
    by (simp add: demo_rec0_def demo_rec1_def new_process_def)
  have a: "prompt_seen (drained_events (OpDrain 7 None demo_prompt) demo_single 7)"
    using expecting_input_set_and_cleared [OF h1 h2 h3] f by simp
  have g1: "distinct (map fst [(7::int, demo_rec1)])" by simp
  have g2: "map_of [(7::int, demo_rec1)] 7 = Some demo_rec1" by simp
  have g3: "map_of (sup_step (OpSendInput demo_send_args demo_send_obs) [(7, demo_rec1)]) 7
        = Some (demo_rec1\<lparr>expecting_input := False\<rparr>)"
    by code_simp
  have b: "fst (handle_send_input_to_process demo_send_args demo_send_obs [(7, demo_rec1)]) = InputSent 7"
    using expecting_input_set_and_cleared [OF g1 g2 g3] f by simp
  from h1 h2 h3 f a g3 b show ?thesis by simp
qed


end
